theory Spec2Isabelle
  imports Main
begin

section \<open>Data model of \<^verbatim>\<open>page_objects\<close>\<close>

text \<open>
  The library \<^verbatim>\<open>page_objects/__init__.py\<close> talks to a Selenium browser driver that
  is not part of the repository. The driver is modelled as an opaque collaborator: every
  method call on the driver, on an element or on a \<^verbatim>\<open>WebDriverWait\<close> is a value of type
  \<open>call\<close>; the calls issued so far form the trace (the state that is passed through
  every operation), and the driver's answer to a call is given by a function of the trace
  so far and the call, so that the page may change between two calls.
\<close>

subsection \<open>Locators\<close>

text \<open>The eight members of \<^verbatim>\<open>selenium.webdriver.common.by.By\<close> that the module names.\<close>

datatype By = CSS_SELECTOR | ID | NAME | XPATH | LINK_TEXT | PARTIAL_LINK_TEXT
  | TAG_NAME | CLASS_NAME

type_synonym locator = "By \<times> string"

text \<open>\<^verbatim>\<open>_LOCATOR_MAP\<close>, a dict from constructor keywords to \<^verbatim>\<open>By\<close> members.\<close>

definition LOCATOR_MAP :: "string \<rightharpoonup> By" where
  "LOCATOR_MAP = map_of
     [(''css'', CSS_SELECTOR),
      (''id_'', ID),
      (''name'', NAME),
      (''xpath'', XPATH),
      (''link_text'', LINK_TEXT),
      (''partial_link_text'', PARTIAL_LINK_TEXT),
      (''tag_name'', TAG_NAME),
      (''class_name'', CLASS_NAME)]"

subsection \<open>Driver, elements, calls\<close>

text \<open>
  A webdriver object: the session it drives and the value of
  \<^verbatim>\<open>getattr(webdriver, 'root_uri', None)\<close> (\<open>None\<close> when the attribute is missing or is
  \<^verbatim>\<open>None\<close>). A web element carries the back-reference \<^verbatim>\<open>parent\<close> to its driver.
\<close>

record webdriver =
  session :: nat
  ambient_root_uri :: "string option"

record element =
  parent :: webdriver
  ident :: nat

text \<open>The object a query is sent to: \<^verbatim>\<open>instance.w\<close> or a context element.\<close>

datatype target = OnDriver webdriver | OnElement element

text \<open>
  \<^verbatim>\<open>self.wait_condition(self.locator)\<close>: the wait condition is a predicate factory of
  \<^verbatim>\<open>selenium.webdriver.support.expected_conditions\<close>, named by a string here; applied
  to the locator it builds the predicate handed to \<^verbatim>\<open>until\<close>.
\<close>

datatype predicate = Predicate string locator

datatype call =
    FindElement target By string
  | FindElements target By string
  | WaitUntil target int predicate
  | SendKeys element string
  | Get webdriver string
  | SwitchToFrame webdriver element
  | SwitchToDefaultContent webdriver

datatype exn =
    ValueError string
  | KeyError string
  | TypeError
  | AttributeError
  | NoSuchElementException
  | TimeoutException
  | WebDriverException string

subsection \<open>Bindings, page objects, Python values\<close>

datatype binding_class = PageElement | MultiPageElement

record binding =
  cls :: binding_class
  locator :: locator
  has_context :: bool
  wait_condition :: "string option"
  wait_time :: int

record page_object =
  w :: webdriver
  root_uri :: "string option"

text \<open>
  The values a descriptor read can produce. \<open>PendingContext b inst\<close> is the closure
  \<^verbatim>\<open>lambda ctx: self.__get__(instance, owner, context=ctx)\<close> with its captured
  \<^verbatim>\<open>self\<close> and \<^verbatim>\<open>instance\<close> (\<^verbatim>\<open>owner\<close> is never used by \<^verbatim>\<open>__get__\<close>).
\<close>

datatype pyval =
    PyNone
  | PyBool bool
  | PyElement element
  | PyList "element list"
  | PendingContext binding page_object

text \<open>Python truthiness, as tested by \<^verbatim>\<open>if not elem\<close>.\<close>

fun truthy :: "pyval \<Rightarrow> bool" where
  "truthy PyNone = False"
| "truthy (PyBool b) = b"
| "truthy (PyElement e) = True"
| "truthy (PyList es) = (es \<noteq> [])"
| "truthy (PendingContext b inst) = True"

type_synonym trace = "call list"
type_synonym browser = "trace \<Rightarrow> call \<Rightarrow> exn + pyval"
type_synonym outcome = "(exn + pyval) \<times> trace"

text \<open>One call to the driver: the answer, and the trace extended by the call.\<close>

definition invoke :: "browser \<Rightarrow> call \<Rightarrow> trace \<Rightarrow> outcome" where
  "invoke drv c tr = (drv tr c, tr @ [c])"

section \<open>\<^verbatim>\<open>PageObject\<close>\<close>

text \<open>Truthiness of a value that is \<^verbatim>\<open>None\<close> or a \<^verbatim>\<open>str\<close>.\<close>

definition truthy_str :: "string option \<Rightarrow> bool" where
  "truthy_str s = (case s of None \<Rightarrow> False | Some t \<Rightarrow> t \<noteq> [])"

text \<open>
  \<^verbatim>\<open>__init__(self, webdriver, root_uri=None)\<close>:
  \<^verbatim>\<open>root_uri if root_uri else getattr(self.w, 'root_uri', None)\<close>
\<close>

definition PageObject_init :: "webdriver \<Rightarrow> string option \<Rightarrow> page_object" where
  "PageObject_init webdriver root_uri' =
     \<lparr>w = webdriver,
      root_uri = (if truthy_str root_uri' then root_uri' else ambient_root_uri webdriver)\<rparr>"

text \<open>
  \<^verbatim>\<open>get(self, uri)\<close>: \<^verbatim>\<open>root_uri = self.root_uri or ''\<close>, then
  \<^verbatim>\<open>self.w.get(root_uri + uri)\<close>; the method returns \<^verbatim>\<open>None\<close>.
\<close>

definition PageObject_get :: "page_object \<Rightarrow> string \<Rightarrow> browser \<Rightarrow> trace \<Rightarrow> outcome" where
  "PageObject_get self uri drv tr =
     (let root_uri' = (case root_uri self of
                         None \<Rightarrow> ''''
                       | Some s \<Rightarrow> if truthy_str (Some s) then s else '''')
      in case invoke drv (Get (w self) (root_uri' @ uri)) tr of
           (Inl e, tr') \<Rightarrow> (Inl e, tr')
         | (Inr _, tr') \<Rightarrow> (Inr PyNone, tr'))"

section \<open>\<^verbatim>\<open>PageElement\<close> and \<^verbatim>\<open>MultiPageElement\<close>\<close>

text \<open>
  \<^verbatim>\<open>__init__(self, context=False, wait_condition=None, wait_time=5, **kwargs)\<close>, shared by
  both classes. \<^verbatim>\<open>kwargs\<close> is the dict of the remaining keyword arguments in the order
  they were written.
\<close>

definition init :: "binding_class \<Rightarrow> bool \<Rightarrow> string option \<Rightarrow> int \<Rightarrow> (string \<times> string) list
    \<Rightarrow> exn + binding" where
  "init c context wait_condition' wait_time' kwargs =
     (if kwargs = [] then Inl (ValueError ''Please specify a locator'')
      else if length kwargs > 1 then Inl (ValueError ''Please specify only one locator'')
      else case hd kwargs of (k, v) \<Rightarrow>
        (case LOCATOR_MAP k of
           None \<Rightarrow> Inl (KeyError k)
         | Some by \<Rightarrow> Inr \<lparr>cls = c, locator = (by, v), has_context = context,
                          wait_condition = wait_condition', wait_time = wait_time'\<rparr>))"

text \<open>\<^verbatim>\<open>PageElement.find\<close>\<close>

definition PageElement_find :: "binding \<Rightarrow> target \<Rightarrow> browser \<Rightarrow> trace \<Rightarrow> outcome" where
  "PageElement_find self context drv tr =
     (case invoke drv (FindElement context (fst (locator self)) (snd (locator self))) tr of
        (Inl NoSuchElementException, tr') \<Rightarrow> (Inr PyNone, tr')
      | r \<Rightarrow> r)"

text \<open>\<^verbatim>\<open>MultiPageElement.find\<close>\<close>

definition MultiPageElement_find :: "binding \<Rightarrow> target \<Rightarrow> browser \<Rightarrow> trace \<Rightarrow> outcome" where
  "MultiPageElement_find self context drv tr =
     (case invoke drv (FindElements context (fst (locator self)) (snd (locator self))) tr of
        (Inl NoSuchElementException, tr') \<Rightarrow> (Inr (PyList []), tr')
      | r \<Rightarrow> r)"

text \<open>\<^verbatim>\<open>self.find(context)\<close>: the method of the object's class.\<close>

definition find :: "binding \<Rightarrow> target \<Rightarrow> browser \<Rightarrow> trace \<Rightarrow> outcome" where
  "find self context drv tr =
     (case cls self of
        PageElement \<Rightarrow> PageElement_find self context drv tr
      | MultiPageElement \<Rightarrow> MultiPageElement_find self context drv tr)"

text \<open>
  \<^verbatim>\<open>PageElement.find_delayed\<close>, inherited unchanged by \<^verbatim>\<open>MultiPageElement\<close>. Calling a
  \<^verbatim>\<open>None\<close> wait condition is a \<^verbatim>\<open>TypeError\<close>, raised before \<^verbatim>\<open>until\<close> runs.
\<close>

definition find_delayed :: "binding \<Rightarrow> target \<Rightarrow> browser \<Rightarrow> trace \<Rightarrow> outcome" where
  "find_delayed self context drv tr =
     (case wait_condition self of
        None \<Rightarrow> (Inl TypeError, tr)
      | Some wc \<Rightarrow>
         (case invoke drv (WaitUntil context (wait_time self) (Predicate wc (locator self))) tr of
            (Inl TimeoutException, tr') \<Rightarrow> (Inr PyNone, tr')
          | r \<Rightarrow> r))"

text \<open>
  \<^verbatim>\<open>__get__(self, instance, owner, context=None)\<close>. \<open>instance\<close> is \<open>None\<close> when the
  attribute is read on the class; \<open>context\<close> is \<open>None\<close> when the descriptor protocol
  makes the call, and the element handed to the closure otherwise.
\<close>

definition PageElement_get :: "binding \<Rightarrow> page_object option \<Rightarrow> element option \<Rightarrow> browser
    \<Rightarrow> trace \<Rightarrow> outcome" where
  "PageElement_get self instance context drv tr =
     (case instance of
        None \<Rightarrow> (Inr PyNone, tr)
      | Some inst \<Rightarrow>
          if context = None \<and> has_context self then (Inr (PendingContext self inst), tr)
          else
            let context' = (case context of None \<Rightarrow> OnDriver (w inst) | Some e \<Rightarrow> OnElement e)
            in if wait_condition self \<noteq> None then find_delayed self context' drv tr
               else find self context' drv tr)"

text \<open>Python's \<^verbatim>\<open>callable\<close>: of the values above only the closure can be called.\<close>

fun callable :: "pyval \<Rightarrow> bool" where
  "callable (PendingContext self inst) = True"
| "callable _ = False"

text \<open>Calling the value a read produced with one argument.\<close>

fun call_with :: "pyval \<Rightarrow> element option \<Rightarrow> browser \<Rightarrow> trace \<Rightarrow> outcome" where
  "call_with (PendingContext self inst) ctx drv tr = PageElement_get self (Some inst) ctx drv tr"
| "call_with _ ctx drv tr = (Inl TypeError, tr)"

text \<open>\<^verbatim>\<open>elem.send_keys(value)\<close>: only elements have the method.\<close>

fun send_keys :: "pyval \<Rightarrow> string \<Rightarrow> browser \<Rightarrow> trace \<Rightarrow> outcome" where
  "send_keys (PyElement e) v drv tr = invoke drv (SendKeys e v) tr"
| "send_keys _ v drv tr = (Inl AttributeError, tr)"

text \<open>\<^verbatim>\<open>PageElement.__set__\<close>\<close>

definition PageElement_set :: "binding \<Rightarrow> page_object \<Rightarrow> string \<Rightarrow> browser \<Rightarrow> trace \<Rightarrow> outcome"
  where
  "PageElement_set self instance v drv tr =
     (if has_context self
      then (Inl (ValueError ''Sorry, the set descriptor doesn't support elements with context.''), tr)
      else case PageElement_get self (Some instance) None drv tr of
          (Inl e, tr') \<Rightarrow> (Inl e, tr')
        | (Inr elem, tr') \<Rightarrow>
            if \<not> truthy elem then (Inl (ValueError ''Can't set value, element not found''), tr')
            else (case send_keys elem v drv tr' of
                    (Inl e, tr'') \<Rightarrow> (Inl e, tr'')
                  | (Inr _, tr'') \<Rightarrow> (Inr PyNone, tr'')))"

text \<open>
  \<^verbatim>\<open>[elem.send_keys(value) for elem in elems]\<close> over a list: left to right, stopping at
  the first call that raises.
\<close>

fun send_keys_each :: "element list \<Rightarrow> string \<Rightarrow> browser \<Rightarrow> trace \<Rightarrow> outcome" where
  "send_keys_each [] v drv tr = (Inr PyNone, tr)"
| "send_keys_each (e # es) v drv tr =
     (case send_keys (PyElement e) v drv tr of
        (Inl x, tr') \<Rightarrow> (Inl x, tr')
      | (Inr _, tr') \<Rightarrow> send_keys_each es v drv tr')"

text \<open>The comprehension on any value: only a list can be iterated.\<close>

fun send_keys_all :: "pyval \<Rightarrow> string \<Rightarrow> browser \<Rightarrow> trace \<Rightarrow> outcome" where
  "send_keys_all (PyList es) v drv tr = send_keys_each es v drv tr"
| "send_keys_all _ v drv tr = (Inl TypeError, tr)"

text \<open>\<^verbatim>\<open>MultiPageElement.__set__\<close>\<close>

definition MultiPageElement_set :: "binding \<Rightarrow> page_object \<Rightarrow> string \<Rightarrow> browser \<Rightarrow> trace
    \<Rightarrow> outcome" where
  "MultiPageElement_set self instance v drv tr =
     (if has_context self
      then (Inl (ValueError ''Sorry, the set descriptor doesn't support elements with context.''), tr)
      else case PageElement_get self (Some instance) None drv tr of
          (Inl e, tr') \<Rightarrow> (Inl e, tr')
        | (Inr elems, tr') \<Rightarrow>
            if \<not> truthy elems then (Inl (ValueError ''Can't set value, no elements found''), tr')
            else send_keys_all elems v drv tr')"

text \<open>\<^verbatim>\<open>instance.attr = value\<close>: the \<^verbatim>\<open>__set__\<close> of the binding's class.\<close>

definition set_attr :: "binding \<Rightarrow> page_object \<Rightarrow> string \<Rightarrow> browser \<Rightarrow> trace \<Rightarrow> outcome" where
  "set_attr self instance v drv tr =
     (case cls self of
        PageElement \<Rightarrow> PageElement_set self instance v drv tr
      | MultiPageElement \<Rightarrow> MultiPageElement_set self instance v drv tr)"

section \<open>\<^verbatim>\<open>IframeElement\<close>\<close>

record iframe_element =
  iframe :: element
  driver :: webdriver

definition IframeElement_init :: "element option \<Rightarrow> exn + iframe_element" where
  "IframeElement_init iframe_element =
     (case iframe_element of
        None \<Rightarrow> Inl (ValueError ''Please specify an iframe'')
      | Some e \<Rightarrow> Inr \<lparr>iframe = e, driver = parent e\<rparr>)"

text \<open>\<^verbatim>\<open>__enter__\<close>: \<^verbatim>\<open>self.driver.switch_to.frame(self.iframe)\<close>, returning \<^verbatim>\<open>None\<close>.\<close>

definition IframeElement_enter :: "iframe_element \<Rightarrow> browser \<Rightarrow> trace \<Rightarrow> outcome" where
  "IframeElement_enter self drv tr =
     (case invoke drv (SwitchToFrame (driver self) (iframe self)) tr of
        (Inl e, tr') \<Rightarrow> (Inl e, tr')
      | (Inr _, tr') \<Rightarrow> (Inr PyNone, tr'))"

text \<open>
  \<^verbatim>\<open>__exit__(self, type_, value, traceback)\<close>: the exception of the block, if any, is
  the second argument; it is not looked at.
\<close>

definition IframeElement_exit :: "iframe_element \<Rightarrow> exn option \<Rightarrow> browser \<Rightarrow> trace \<Rightarrow> outcome"
  where
  "IframeElement_exit self exc drv tr =
     (case invoke drv (SwitchToDefaultContent (driver self)) tr of
        (Inl e, tr') \<Rightarrow> (Inl e, tr')
      | (Inr _, tr') \<Rightarrow> (Inr PyNone, tr'))"

text \<open>
  Python's \<^verbatim>\<open>with IframeElement(e): block\<close>, once the manager is built: \<^verbatim>\<open>__enter__\<close>,
  the block, then \<^verbatim>\<open>__exit__\<close> with the block's exception if it raised; the exception
  is swallowed only when \<^verbatim>\<open>__exit__\<close> returns a true value, and an exception raised by
  \<^verbatim>\<open>__exit__\<close> itself replaces it.
\<close>

definition with_iframe :: "iframe_element \<Rightarrow> (trace \<Rightarrow> outcome) \<Rightarrow> browser \<Rightarrow> trace \<Rightarrow> outcome"
  where
  "with_iframe mgr block drv tr =
     (case IframeElement_enter mgr drv tr of
        (Inl e, tr1) \<Rightarrow> (Inl e, tr1)
      | (Inr _, tr1) \<Rightarrow>
         (case block tr1 of
            (Inr v, tr2) \<Rightarrow>
              (case IframeElement_exit mgr None drv tr2 of
                 (Inl e, tr3) \<Rightarrow> (Inl e, tr3)
               | (Inr _, tr3) \<Rightarrow> (Inr v, tr3))
          | (Inl x, tr2) \<Rightarrow>
              (case IframeElement_exit mgr (Some x) drv tr2 of
                 (Inl e, tr3) \<Rightarrow> (Inl e, tr3)
               | (Inr r, tr3) \<Rightarrow> if truthy r then (Inr PyNone, tr3) else (Inl x, tr3))))"

section \<open>Example objects\<close>

text \<open>A driver session, a page object on it and elements of its page, for concrete runs.\<close>

abbreviation wd1 :: webdriver where
  "wd1 \<equiv> \<lparr>session = 0, ambient_root_uri = None\<rparr>"

abbreviation page1 :: page_object where
  "page1 \<equiv> \<lparr>w = wd1, root_uri = None\<rparr>"

abbreviation el :: "nat \<Rightarrow> element" where
  "el n \<equiv> \<lparr>parent = wd1, ident = n\<rparr>"

abbreviation binding1 :: "binding_class \<Rightarrow> bool \<Rightarrow> string option \<Rightarrow> binding" where
  "binding1 c ctx wc \<equiv>
     \<lparr>cls = c, locator = (ID, ''foo''), has_context = ctx, wait_condition = wc, wait_time = 5\<rparr>"

section \<open>Construction of a binding\<close>

lemma LOCATOR_MAP_unrecognized:
  "k \<notin> {''css'', ''id_'', ''name'', ''xpath'', ''link_text'', ''partial_link_text'',
          ''tag_name'', ''class_name''} \<Longrightarrow> LOCATOR_MAP k = None"
  by (simp add: LOCATOR_MAP_def)

lemma LOCATOR_MAP_recognized:
  "(k, by) \<in> {(''css'', CSS_SELECTOR), (''id_'', ID), (''name'', NAME), (''xpath'', XPATH),
     (''link_text'', LINK_TEXT), (''partial_link_text'', PARTIAL_LINK_TEXT),
     (''tag_name'', TAG_NAME), (''class_name'', CLASS_NAME)} \<Longrightarrow> LOCATOR_MAP k = Some by"
  by (auto simp add: LOCATOR_MAP_def)

lemma init_single:
  "init c ctx wc wt [(k, v)] =
     (case LOCATOR_MAP k of
        None \<Rightarrow> Inl (KeyError k)
      | Some by \<Rightarrow> Inr \<lparr>cls = c, locator = (by, v), has_context = ctx,
                       wait_condition = wc, wait_time = wt\<rparr>)"
  by (simp add: init_def)

text \<open>
  Claim C1. Constructing a binding of either class: with no locator keyword the
  constructor raises \<^verbatim>\<open>ValueError\<close>; with more than one it raises \<^verbatim>\<open>ValueError\<close>,
  whatever the keywords are; with exactly one of the eight recognised keywords it returns
  the binding whose locator is the registry's strategy for that keyword paired with the
  given selector; with one keyword that is not among the eight it raises \<^verbatim>\<open>KeyError\<close>.
  All of this is the result of the constructor, so no binding with an unrecognised
  keyword exists that a later resolution could fail on.
\<close>

theorem init_one_locator_keyword:
  "init c ctx wc wt [] = Inl (ValueError ''Please specify a locator'') \<and>
   (1 < length kwargs \<longrightarrow>
      init c ctx wc wt kwargs = Inl (ValueError ''Please specify only one locator'')) \<and>
   ((k, by) \<in> {(''css'', CSS_SELECTOR), (''id_'', ID), (''name'', NAME), (''xpath'', XPATH),
       (''link_text'', LINK_TEXT), (''partial_link_text'', PARTIAL_LINK_TEXT),
       (''tag_name'', TAG_NAME), (''class_name'', CLASS_NAME)} \<longrightarrow>
      init c ctx wc wt [(k, v)] =
        Inr \<lparr>cls = c, locator = (by, v), has_context = ctx, wait_condition = wc,
             wait_time = wt\<rparr>) \<and>
   (k' \<notin> {''css'', ''id_'', ''name'', ''xpath'', ''link_text'', ''partial_link_text'',
           ''tag_name'', ''class_name''} \<longrightarrow>
      init c ctx wc wt [(k', v)] = Inl (KeyError k'))"
proof (intro conjI impI)
  show "init c ctx wc wt [] = Inl (ValueError ''Please specify a locator'')"
    by (simp add: init_def)
next
  assume "1 < length kwargs"
  then have "kwargs \<noteq> []" by auto
  with \<open>1 < length kwargs\<close>
  show "init c ctx wc wt kwargs = Inl (ValueError ''Please specify only one locator'')"
    by (simp add: init_def)
next
  assume "(k, by) \<in> {(''css'', CSS_SELECTOR), (''id_'', ID), (''name'', NAME), (''xpath'', XPATH),
       (''link_text'', LINK_TEXT), (''partial_link_text'', PARTIAL_LINK_TEXT),
       (''tag_name'', TAG_NAME), (''class_name'', CLASS_NAME)}"
  then have "LOCATOR_MAP k = Some by" by (rule LOCATOR_MAP_recognized)
  then show "init c ctx wc wt [(k, v)] =
        Inr \<lparr>cls = c, locator = (by, v), has_context = ctx, wait_condition = wc,
             wait_time = wt\<rparr>"
    by (simp add: init_single)
next
  assume "k' \<notin> {''css'', ''id_'', ''name'', ''xpath'', ''link_text'', ''partial_link_text'',
           ''tag_name'', ''class_name''}"
  then have "LOCATOR_MAP k' = None" by (rule LOCATOR_MAP_unrecognized)
  then show "init c ctx wc wt [(k', v)] = Inl (KeyError k')"
    by (simp add: init_single)
qed

theorem init_one_locator_keyword_witness:
  "init MultiPageElement False None 5 [] = Inl (ValueError ''Please specify a locator'') \<and>
   init MultiPageElement False None 5 [(''css'', ''a''), (''id_'', ''b'')] =
     Inl (ValueError ''Please specify only one locator'') \<and>
   init MultiPageElement False None 5 [(''id_'', ''foo'')] =
     Inr \<lparr>cls = MultiPageElement, locator = (ID, ''foo''), has_context = False,
          wait_condition = None, wait_time = 5\<rparr> \<and>
   init MultiPageElement False None 5 [(''tag'', ''foo'')] = Inl (KeyError ''tag'')"
  using init_one_locator_keyword [of MultiPageElement False None 5
      "[(''css'', ''a''), (''id_'', ''b'')]" "''id_''" ID "''foo''" "''tag''"]
  by simp

section \<open>Reading a binding\<close>

text \<open>
  Claim C10. A read through the class, where the descriptor protocol supplies no instance,
  returns \<^verbatim>\<open>None\<close> for every binding and every context argument, and leaves the trace
  as it was: the driver is not called.
\<close>

theorem class_read_is_None:
  "PageElement_get b None ctx drv tr = (Inr PyNone, tr)"
  by (simp add: PageElement_get_def)

text \<open>
  Claim C3. A \<^verbatim>\<open>PageElement\<close> without context and without wait condition, read on an
  instance, sends one \<^verbatim>\<open>find_element\<close> with its locator to the instance's driver. If
  the driver raises \<^verbatim>\<open>NoSuchElementException\<close> the read returns \<^verbatim>\<open>None\<close> and raises
  nothing; if the driver returns a value the read returns exactly that value.
\<close>

theorem single_find_not_found_is_None:
  "cls b = PageElement \<Longrightarrow> \<not> has_context b \<Longrightarrow> wait_condition b = None \<Longrightarrow>
   q = FindElement (OnDriver (w inst)) (fst (locator b)) (snd (locator b)) \<Longrightarrow>
     (drv tr q = Inl NoSuchElementException \<longrightarrow>
        PageElement_get b (Some inst) None drv tr = (Inr PyNone, tr @ [q])) \<and>
     (drv tr q = Inr v \<longrightarrow>
        PageElement_get b (Some inst) None drv tr = (Inr v, tr @ [q]))"
  by (simp add: PageElement_get_def find_def PageElement_find_def invoke_def)

theorem single_find_not_found_is_None_witness:
  "PageElement_get (binding1 PageElement False None) (Some page1) None
       (\<lambda>t c. Inl NoSuchElementException) [] =
     (Inr PyNone, [FindElement (OnDriver wd1) ID ''foo'']) \<and>
   PageElement_get (binding1 PageElement False None) (Some page1) None
       (\<lambda>t c. Inr (PyElement (el 7))) [] =
     (Inr (PyElement (el 7)), [FindElement (OnDriver wd1) ID ''foo''])"
  using
    single_find_not_found_is_None [where b = "binding1 PageElement False None"
      and inst = page1 and drv = "\<lambda>t c. Inl NoSuchElementException" and tr = "[]"
      and q = "FindElement (OnDriver wd1) ID ''foo''"]
    single_find_not_found_is_None [where b = "binding1 PageElement False None"
      and inst = page1 and drv = "\<lambda>t c. Inr (PyElement (el 7))" and tr = "[]"
      and q = "FindElement (OnDriver wd1) ID ''foo''" and v = "PyElement (el 7)"]
  by simp

text \<open>
  A \<^verbatim>\<open>MultiPageElement\<close> without wait condition: the driver's list is returned as it
  is, and \<^verbatim>\<open>NoSuchElementException\<close> becomes the empty list.
\<close>

lemma multi_find_is_list:
  "cls b = MultiPageElement \<Longrightarrow> wait_condition b = None \<Longrightarrow> \<not> has_context b \<Longrightarrow>
   q = FindElements (OnDriver (w inst)) (fst (locator b)) (snd (locator b)) \<Longrightarrow>
     (drv tr q = Inl NoSuchElementException \<longrightarrow>
        PageElement_get b (Some inst) None drv tr = (Inr (PyList []), tr @ [q])) \<and>
     (drv tr q = Inr (PyList es) \<longrightarrow>
        PageElement_get b (Some inst) None drv tr = (Inr (PyList es), tr @ [q]))"
  by (simp add: PageElement_get_def find_def MultiPageElement_find_def invoke_def)

text \<open>
  Claim C4. The claim is that a \<^verbatim>\<open>MultiPageElement\<close> read never returns \<^verbatim>\<open>None\<close>, with
  or without a wait condition. \<^verbatim>\<open>MultiPageElement\<close> overrides \<^verbatim>\<open>find\<close> to return
  \<^verbatim>\<open>[]\<close>, but inherits \<^verbatim>\<open>find_delayed\<close>, whose handler returns \<^verbatim>\<open>None\<close>. The run
  below builds \<^verbatim>\<open>MultiPageElement(tag_name='tr',
  wait_condition=presence_of_all_elements_located)\<close> and reads it on an instance while the
  driver's wait raises \<^verbatim>\<open>TimeoutException\<close>: the read returns \<^verbatim>\<open>None\<close>, not a list.
\<close>

theorem multi_waited_timeout_is_None:
  "init MultiPageElement False (Some ''presence_of_all_elements_located'') 5
       [(''tag_name'', ''tr'')] =
     Inr \<lparr>cls = MultiPageElement, locator = (TAG_NAME, ''tr''), has_context = False,
          wait_condition = Some ''presence_of_all_elements_located'', wait_time = 5\<rparr> \<and>
   PageElement_get
       \<lparr>cls = MultiPageElement, locator = (TAG_NAME, ''tr''), has_context = False,
        wait_condition = Some ''presence_of_all_elements_located'', wait_time = 5\<rparr>
       (Some page1) None (\<lambda>t c. Inl TimeoutException) [] =
     (Inr PyNone,
      [WaitUntil (OnDriver wd1) 5
         (Predicate ''presence_of_all_elements_located'' (TAG_NAME, ''tr''))])"
  by (simp add: init_def LOCATOR_MAP_def PageElement_get_def find_delayed_def invoke_def)

lemma find_delayed_trace:
  "wait_condition b = Some wc \<Longrightarrow>
     snd (find_delayed b root drv tr) =
       tr @ [WaitUntil root (wait_time b) (Predicate wc (locator b))]"
  by (simp add: find_delayed_def invoke_def split: sum.split exn.split)

lemma find_delayed_value:
  "wait_condition b = Some wc \<Longrightarrow>
   drv tr (WaitUntil root (wait_time b) (Predicate wc (locator b))) = Inr v \<Longrightarrow>
     fst (find_delayed b root drv tr) = Inr v"
  by (simp add: find_delayed_def invoke_def)

lemma find_delayed_timeout:
  "wait_condition b = Some wc \<Longrightarrow>
   drv tr (WaitUntil root (wait_time b) (Predicate wc (locator b))) = Inl TimeoutException \<Longrightarrow>
     fst (find_delayed b root drv tr) = Inr PyNone"
  by (simp add: find_delayed_def invoke_def)

lemma PageElement_get_waited:
  "wait_condition b = Some wc \<Longrightarrow> \<not> (has_context b \<and> ctx = None) \<Longrightarrow>
     PageElement_get b (Some inst) ctx drv tr =
       find_delayed b (case ctx of None \<Rightarrow> OnDriver (w inst) | Some e \<Rightarrow> OnElement e) drv tr"
  by (auto simp add: PageElement_get_def)

lemma PageElement_get_unwaited:
  "wait_condition b = None \<Longrightarrow> \<not> (has_context b \<and> ctx = None) \<Longrightarrow>
     PageElement_get b (Some inst) ctx drv tr =
       find b (case ctx of None \<Rightarrow> OnDriver (w inst) | Some e \<Rightarrow> OnElement e) drv tr"
  by (auto simp add: PageElement_get_def)

text \<open>What \<^verbatim>\<open>find\<close> of each class does on any root: one query, and its outcome.\<close>

lemma find_single_trace:
  "cls b = PageElement \<Longrightarrow>
     snd (find b root drv tr) = tr @ [FindElement root (fst (locator b)) (snd (locator b))]"
  by (simp add: find_def PageElement_find_def invoke_def split: sum.split exn.split)

lemma find_single_value:
  "cls b = PageElement \<Longrightarrow>
   drv tr (FindElement root (fst (locator b)) (snd (locator b))) = Inr v \<Longrightarrow>
     fst (find b root drv tr) = Inr v"
  by (simp add: find_def PageElement_find_def invoke_def)

lemma find_single_not_found:
  "cls b = PageElement \<Longrightarrow>
   drv tr (FindElement root (fst (locator b)) (snd (locator b))) = Inl NoSuchElementException \<Longrightarrow>
     fst (find b root drv tr) = Inr PyNone"
  by (simp add: find_def PageElement_find_def invoke_def)

lemma find_multi_trace:
  "cls b = MultiPageElement \<Longrightarrow>
     snd (find b root drv tr) = tr @ [FindElements root (fst (locator b)) (snd (locator b))]"
  by (simp add: find_def MultiPageElement_find_def invoke_def split: sum.split exn.split)

lemma find_multi_value:
  "cls b = MultiPageElement \<Longrightarrow>
   drv tr (FindElements root (fst (locator b)) (snd (locator b))) = Inr v \<Longrightarrow>
     fst (find b root drv tr) = Inr v"
  by (simp add: find_def MultiPageElement_find_def invoke_def)

lemma find_multi_not_found:
  "cls b = MultiPageElement \<Longrightarrow>
   drv tr (FindElements root (fst (locator b)) (snd (locator b))) = Inl NoSuchElementException \<Longrightarrow>
     fst (find b root drv tr) = Inr (PyList [])"
  by (simp add: find_def MultiPageElement_find_def invoke_def)

text \<open>
  Claim C2. For a binding with \<^verbatim>\<open>context=True\<close>, of either class and with or without a
  wait condition, a read on an instance with no context returns, without calling the
  driver, the closure: a callable that is neither \<^verbatim>\<open>None\<close> nor an element. Calling
  the closure with a context element \<open>e\<close> is the read with \<open>e\<close> as context, and that
  read queries \<open>e\<close> itself, with exactly one call:
  \<^item> with no wait condition, a \<^verbatim>\<open>PageElement\<close> sends \<^verbatim>\<open>find_element\<close> with its locator
    to \<open>e\<close>, returns the driver's value, and returns \<^verbatim>\<open>None\<close> on
    \<^verbatim>\<open>NoSuchElementException\<close>;
  \<^item> with no wait condition, a \<^verbatim>\<open>MultiPageElement\<close> sends \<^verbatim>\<open>find_elements\<close> with its
    locator to \<open>e\<close>, returns the driver's value, and returns \<^verbatim>\<open>[]\<close> on
    \<^verbatim>\<open>NoSuchElementException\<close>;
  \<^item> with a wait condition, either class runs the bounded wait rooted at \<open>e\<close> with the
    binding's wait time and the predicate built from its locator, returns the wait's
    value, and returns \<^verbatim>\<open>None\<close> on \<^verbatim>\<open>TimeoutException\<close>.
\<close>

theorem context_read_is_callable:
  "has_context b \<Longrightarrow>
     (\<exists>f. PageElement_get b (Some inst) None drv tr = (Inr f, tr) \<and>
          callable f \<and> f \<noteq> PyNone \<and> (\<forall>x. f \<noteq> PyElement x) \<and>
          call_with f (Some e) drv tr' = PageElement_get b (Some inst) (Some e) drv tr') \<and>
     PageElement_get b (Some inst) (Some e) drv tr' =
       (if wait_condition b \<noteq> None then find_delayed b (OnElement e) drv tr'
        else find b (OnElement e) drv tr') \<and>
     PageElement_get b (Some inst) None drv tr = (Inr (PendingContext b inst), tr) \<and>
     (wait_condition b = None \<longrightarrow> cls b = PageElement \<longrightarrow>
        snd (call_with (PendingContext b inst) (Some e) drv tr') =
          tr' @ [FindElement (OnElement e) (fst (locator b)) (snd (locator b))] \<and>
        (\<forall>v. drv tr' (FindElement (OnElement e) (fst (locator b)) (snd (locator b))) = Inr v \<longrightarrow>
           fst (call_with (PendingContext b inst) (Some e) drv tr') = Inr v) \<and>
        (drv tr' (FindElement (OnElement e) (fst (locator b)) (snd (locator b))) =
           Inl NoSuchElementException \<longrightarrow>
           fst (call_with (PendingContext b inst) (Some e) drv tr') = Inr PyNone)) \<and>
     (wait_condition b = None \<longrightarrow> cls b = MultiPageElement \<longrightarrow>
        snd (call_with (PendingContext b inst) (Some e) drv tr') =
          tr' @ [FindElements (OnElement e) (fst (locator b)) (snd (locator b))] \<and>
        (\<forall>v. drv tr' (FindElements (OnElement e) (fst (locator b)) (snd (locator b))) = Inr v \<longrightarrow>
           fst (call_with (PendingContext b inst) (Some e) drv tr') = Inr v) \<and>
        (drv tr' (FindElements (OnElement e) (fst (locator b)) (snd (locator b))) =
           Inl NoSuchElementException \<longrightarrow>
           fst (call_with (PendingContext b inst) (Some e) drv tr') = Inr (PyList []))) \<and>
     (\<forall>wc. wait_condition b = Some wc \<longrightarrow>
        snd (call_with (PendingContext b inst) (Some e) drv tr') =
          tr' @ [WaitUntil (OnElement e) (wait_time b) (Predicate wc (locator b))] \<and>
        (\<forall>v. drv tr' (WaitUntil (OnElement e) (wait_time b) (Predicate wc (locator b))) = Inr v \<longrightarrow>
           fst (call_with (PendingContext b inst) (Some e) drv tr') = Inr v) \<and>
        (drv tr' (WaitUntil (OnElement e) (wait_time b) (Predicate wc (locator b))) =
           Inl TimeoutException \<longrightarrow>
           fst (call_with (PendingContext b inst) (Some e) drv tr') = Inr PyNone))"
proof (intro conjI impI allI)
  assume ctx: "has_context b"
  then show "\<exists>f. PageElement_get b (Some inst) None drv tr = (Inr f, tr) \<and>
          callable f \<and> f \<noteq> PyNone \<and> (\<forall>x. f \<noteq> PyElement x) \<and>
          call_with f (Some e) drv tr' = PageElement_get b (Some inst) (Some e) drv tr'"
    by (simp add: PageElement_get_def)
  show "PageElement_get b (Some inst) (Some e) drv tr' =
       (if wait_condition b \<noteq> None then find_delayed b (OnElement e) drv tr'
        else find b (OnElement e) drv tr')"
    by (simp add: PageElement_get_def)
  from ctx show "PageElement_get b (Some inst) None drv tr = (Inr (PendingContext b inst), tr)"
    by (simp add: PageElement_get_def)
next
  assume "wait_condition b = None" "cls b = PageElement"
  then show "snd (call_with (PendingContext b inst) (Some e) drv tr') =
          tr' @ [FindElement (OnElement e) (fst (locator b)) (snd (locator b))]"
    by (simp add: PageElement_get_unwaited find_single_trace)
next
  fix v
  assume "wait_condition b = None" "cls b = PageElement"
    "drv tr' (FindElement (OnElement e) (fst (locator b)) (snd (locator b))) = Inr v"
  then show "fst (call_with (PendingContext b inst) (Some e) drv tr') = Inr v"
    by (simp add: PageElement_get_unwaited find_single_value)
next
  assume "wait_condition b = None" "cls b = PageElement"
    "drv tr' (FindElement (OnElement e) (fst (locator b)) (snd (locator b))) =
       Inl NoSuchElementException"
  then show "fst (call_with (PendingContext b inst) (Some e) drv tr') = Inr PyNone"
    by (simp add: PageElement_get_unwaited find_single_not_found)
next
  assume "wait_condition b = None" "cls b = MultiPageElement"
  then show "snd (call_with (PendingContext b inst) (Some e) drv tr') =
          tr' @ [FindElements (OnElement e) (fst (locator b)) (snd (locator b))]"
    by (simp add: PageElement_get_unwaited find_multi_trace)
next
  fix v
  assume "wait_condition b = None" "cls b = MultiPageElement"
    "drv tr' (FindElements (OnElement e) (fst (locator b)) (snd (locator b))) = Inr v"
  then show "fst (call_with (PendingContext b inst) (Some e) drv tr') = Inr v"
    by (simp add: PageElement_get_unwaited find_multi_value)
next
  assume "wait_condition b = None" "cls b = MultiPageElement"
    "drv tr' (FindElements (OnElement e) (fst (locator b)) (snd (locator b))) =
       Inl NoSuchElementException"
  then show "fst (call_with (PendingContext b inst) (Some e) drv tr') = Inr (PyList [])"
    by (simp add: PageElement_get_unwaited find_multi_not_found)
next
  fix wc
  assume "wait_condition b = Some wc"
  then show "snd (call_with (PendingContext b inst) (Some e) drv tr') =
          tr' @ [WaitUntil (OnElement e) (wait_time b) (Predicate wc (locator b))]"
    by (simp add: PageElement_get_waited find_delayed_trace)
next
  fix wc v
  assume "wait_condition b = Some wc"
    "drv tr' (WaitUntil (OnElement e) (wait_time b) (Predicate wc (locator b))) = Inr v"
  then show "fst (call_with (PendingContext b inst) (Some e) drv tr') = Inr v"
    by (simp add: PageElement_get_waited find_delayed_value)
next
  fix wc
  assume "wait_condition b = Some wc"
    "drv tr' (WaitUntil (OnElement e) (wait_time b) (Predicate wc (locator b))) =
       Inl TimeoutException"
  then show "fst (call_with (PendingContext b inst) (Some e) drv tr') = Inr PyNone"
    by (simp add: PageElement_get_waited find_delayed_timeout)
qed

theorem context_read_is_callable_witness:
  "PageElement_get (binding1 PageElement True None) (Some page1) None
       (\<lambda>t c. Inr (PyElement (el 9))) [] =
     (Inr (PendingContext (binding1 PageElement True None) page1), []) \<and>
   call_with (PendingContext (binding1 PageElement True None) page1) (Some (el 4))
       (\<lambda>t c. Inr (PyElement (el 9))) [] =
     (Inr (PyElement (el 9)), [FindElement (OnElement (el 4)) ID ''foo'']) \<and>
   call_with (PendingContext (binding1 PageElement True None) page1) (Some (el 4))
       (\<lambda>t c. Inl NoSuchElementException) [] =
     (Inr PyNone, [FindElement (OnElement (el 4)) ID ''foo'']) \<and>
   call_with (PendingContext (binding1 MultiPageElement True None) page1) (Some (el 4))
       (\<lambda>t c. Inr (PyList [el 2, el 3])) [] =
     (Inr (PyList [el 2, el 3]), [FindElements (OnElement (el 4)) ID ''foo'']) \<and>
   call_with (PendingContext (binding1 MultiPageElement True None) page1) (Some (el 4))
       (\<lambda>t c. Inl NoSuchElementException) [] =
     (Inr (PyList []), [FindElements (OnElement (el 4)) ID ''foo'']) \<and>
   call_with (PendingContext (binding1 PageElement True (Some ''visibility_of_element_located''))
                page1)
       (Some (el 4)) (\<lambda>t c. Inr (PyElement (el 9))) [] =
     (Inr (PyElement (el 9)),
      [WaitUntil (OnElement (el 4)) 5
         (Predicate ''visibility_of_element_located'' (ID, ''foo''))]) \<and>
   call_with (PendingContext (binding1 PageElement True (Some ''visibility_of_element_located''))
                page1)
       (Some (el 4)) (\<lambda>t c. Inl TimeoutException) [] =
     (Inr PyNone,
      [WaitUntil (OnElement (el 4)) 5
         (Predicate ''visibility_of_element_located'' (ID, ''foo''))])"
  using
    context_read_is_callable [where b = "binding1 PageElement True None" and inst = page1
      and drv = "\<lambda>t c. Inr (PyElement (el 9))" and tr = "[]" and tr' = "[]" and e = "el 4"]
    context_read_is_callable [where b = "binding1 PageElement True None" and inst = page1
      and drv = "\<lambda>t c. Inl NoSuchElementException" and tr = "[]" and tr' = "[]"
      and e = "el 4"]
    context_read_is_callable [where b = "binding1 MultiPageElement True None" and inst = page1
      and drv = "\<lambda>t c. Inr (PyList [el 2, el 3])" and tr = "[]" and tr' = "[]" and e = "el 4"]
    context_read_is_callable [where b = "binding1 MultiPageElement True None" and inst = page1
      and drv = "\<lambda>t c. Inl NoSuchElementException" and tr = "[]" and tr' = "[]"
      and e = "el 4"]
    context_read_is_callable [where
      b = "binding1 PageElement True (Some ''visibility_of_element_located'')"
      and inst = page1 and drv = "\<lambda>t c. Inr (PyElement (el 9))" and tr = "[]"
      and tr' = "[]" and e = "el 4"]
    context_read_is_callable [where
      b = "binding1 PageElement True (Some ''visibility_of_element_located'')"
      and inst = page1 and drv = "\<lambda>t c. Inl TimeoutException" and tr = "[]"
      and tr' = "[]" and e = "el 4"]
  by (simp add: PageElement_get_def find_def PageElement_find_def MultiPageElement_find_def
      find_delayed_def invoke_def)

text \<open>
  Claim C6. A \<^verbatim>\<open>PageElement\<close> with a wait condition, read on an instance (with a
  context element if it needs one, on the instance's driver otherwise), makes exactly one
  call: \<^verbatim>\<open>WebDriverWait(root, wait_time).until(wait_condition(locator))\<close>. If the wait
  returns a value, the read returns that value; if the wait raises
  \<^verbatim>\<open>TimeoutException\<close>, the read returns \<^verbatim>\<open>None\<close> and raises nothing.
\<close>

theorem waited_read:
  "cls b = PageElement \<Longrightarrow> wait_condition b = Some wc \<Longrightarrow> \<not> (has_context b \<and> ctx = None) \<Longrightarrow>
   root = (case ctx of None \<Rightarrow> OnDriver (w inst) | Some e \<Rightarrow> OnElement e) \<Longrightarrow>
   q = WaitUntil root (wait_time b) (Predicate wc (locator b)) \<Longrightarrow>
     snd (PageElement_get b (Some inst) ctx drv tr) = tr @ [q] \<and>
     (drv tr q = Inr v \<longrightarrow> fst (PageElement_get b (Some inst) ctx drv tr) = Inr v) \<and>
     (drv tr q = Inl TimeoutException \<longrightarrow>
        fst (PageElement_get b (Some inst) ctx drv tr) = Inr PyNone)"
  by (simp add: PageElement_get_waited find_delayed_trace find_delayed_value
      find_delayed_timeout)

theorem waited_read_witness:
  "PageElement_get (binding1 PageElement False (Some ''presence_of_element_located''))
       (Some page1) None (\<lambda>t c. Inl TimeoutException) [] =
     (Inr PyNone,
      [WaitUntil (OnDriver wd1) 5 (Predicate ''presence_of_element_located'' (ID, ''foo''))]) \<and>
   PageElement_get (binding1 PageElement False (Some ''presence_of_element_located''))
       (Some page1) None (\<lambda>t c. Inr (PyElement (el 2))) [] =
     (Inr (PyElement (el 2)),
      [WaitUntil (OnDriver wd1) 5 (Predicate ''presence_of_element_located'' (ID, ''foo''))])"
  using
    waited_read [where b = "binding1 PageElement False (Some ''presence_of_element_located'')"
      and wc = "''presence_of_element_located''" and ctx = None and inst = page1
      and root = "OnDriver wd1" and drv = "\<lambda>t c. Inl TimeoutException" and tr = "[]"
      and q = "WaitUntil (OnDriver wd1) 5 (Predicate ''presence_of_element_located'' (ID, ''foo''))"]
    waited_read [where b = "binding1 PageElement False (Some ''presence_of_element_located'')"
      and wc = "''presence_of_element_located''" and ctx = None and inst = page1
      and root = "OnDriver wd1" and drv = "\<lambda>t c. Inr (PyElement (el 2))" and tr = "[]"
      and q = "WaitUntil (OnDriver wd1) 5 (Predicate ''presence_of_element_located'' (ID, ''foo''))"
      and v = "PyElement (el 2)"]
  by (simp add: prod_eq_iff)

section \<open>Writing a binding\<close>

lemma send_keys_each_returns:
  "fst (send_keys_each es v drv tr) = Inr r \<Longrightarrow>
     send_keys_each es v drv tr = (Inr PyNone, tr @ map (\<lambda>x. SendKeys x v) es)"
proof (induction es arbitrary: tr)
  case Nil
  then show ?case by simp
next
  case (Cons e es)
  show ?case
  proof (cases "drv tr (SendKeys e v)")
    case (Inl x)
    with Cons.prems show ?thesis by (simp add: invoke_def)
  next
    case (Inr y)
    with Cons.prems have "fst (send_keys_each es v drv (tr @ [SendKeys e v])) = Inr r"
      by (simp add: invoke_def)
    then have "send_keys_each es v drv (tr @ [SendKeys e v]) =
        (Inr PyNone, (tr @ [SendKeys e v]) @ map (\<lambda>x. SendKeys x v) es)"
      by (rule Cons.IH)
    with Inr show ?thesis by (simp add: invoke_def)
  qed
qed

lemma send_keys_each_accepted:
  "(\<forall>i < length es. \<exists>r.
      drv (tr @ map (\<lambda>x. SendKeys x v) (take i es)) (SendKeys (es ! i) v) = Inr r)
   \<Longrightarrow> send_keys_each es v drv tr = (Inr PyNone, tr @ map (\<lambda>x. SendKeys x v) es)"
proof (induction es arbitrary: tr)
  case Nil
  then show ?case by simp
next
  case (Cons e es)
  from Cons.prems
  have "\<exists>r. drv (tr @ map (\<lambda>x. SendKeys x v) (take 0 (e # es))) (SendKeys ((e # es) ! 0) v)
          = Inr r"
    by blast
  then obtain r where first: "drv tr (SendKeys e v) = Inr r" by auto
  have "\<forall>i < length es. \<exists>r.
          drv ((tr @ [SendKeys e v]) @ map (\<lambda>x. SendKeys x v) (take i es)) (SendKeys (es ! i) v)
            = Inr r"
  proof (intro allI impI)
    fix i assume "i < length es"
    then have "Suc i < length (e # es)" by simp
    with Cons.prems
    have "\<exists>r. drv (tr @ map (\<lambda>x. SendKeys x v) (take (Suc i) (e # es)))
            (SendKeys ((e # es) ! Suc i) v) = Inr r"
      by blast
    then show "\<exists>r. drv ((tr @ [SendKeys e v]) @ map (\<lambda>x. SendKeys x v) (take i es))
            (SendKeys (es ! i) v) = Inr r"
      by simp
  qed
  then have "send_keys_each es v drv (tr @ [SendKeys e v]) =
      (Inr PyNone, (tr @ [SendKeys e v]) @ map (\<lambda>x. SendKeys x v) es)"
    by (rule Cons.IH)
  with first show ?case by (simp add: invoke_def)
qed

lemma set_attr_context:
  "has_context b \<Longrightarrow> set_attr b inst v drv tr =
     (Inl (ValueError ''Sorry, the set descriptor doesn't support elements with context.''), tr)"
  by (simp add: set_attr_def PageElement_set_def MultiPageElement_set_def
      split: binding_class.split)

lemma set_attr_single:
  "\<not> has_context b \<Longrightarrow> cls b = PageElement \<Longrightarrow>
   PageElement_get b (Some inst) None drv tr = (Inr elem, tr') \<Longrightarrow>
     set_attr b inst v drv tr =
       (if \<not> truthy elem then (Inl (ValueError ''Can't set value, element not found''), tr')
        else case send_keys elem v drv tr' of
               (Inl e, tr'') \<Rightarrow> (Inl e, tr'')
             | (Inr _, tr'') \<Rightarrow> (Inr PyNone, tr''))"
  by (simp add: set_attr_def PageElement_set_def)

lemma set_attr_multi:
  "\<not> has_context b \<Longrightarrow> cls b = MultiPageElement \<Longrightarrow>
   PageElement_get b (Some inst) None drv tr = (Inr elems, tr') \<Longrightarrow>
     set_attr b inst v drv tr =
       (if \<not> truthy elems then (Inl (ValueError ''Can't set value, no elements found''), tr')
        else send_keys_all elems v drv tr')"
  by (simp add: set_attr_def MultiPageElement_set_def)

lemma set_attr_raises:
  "\<not> has_context b \<Longrightarrow> PageElement_get b (Some inst) None drv tr = (Inl x, tr') \<Longrightarrow>
     set_attr b inst v drv tr = (Inl x, tr')"
  by (simp add: set_attr_def PageElement_set_def MultiPageElement_set_def
      split: binding_class.split)

text \<open>
  Claim C5. Writing \<open>v\<close> to a binding on an instance, from trace \<open>tr\<close>. With
  \<^verbatim>\<open>context=True\<close> the write raises \<^verbatim>\<open>ValueError\<close> and the trace is still \<open>tr\<close>: nothing
  was resolved. Otherwise the binding is first read on the instance, ending in trace
  \<open>tr'\<close>: an exception of the read is the outcome of the write; a \<^verbatim>\<open>PageElement\<close> that
  read \<^verbatim>\<open>None\<close>, and a \<^verbatim>\<open>MultiPageElement\<close> that read the empty list, raise
  \<^verbatim>\<open>ValueError\<close> with no further call; a \<^verbatim>\<open>PageElement\<close> that read an element makes
  exactly one further call, \<^verbatim>\<open>send_keys(v)\<close> on that element; a \<^verbatim>\<open>MultiPageElement\<close>
  that read a non-empty list calls \<^verbatim>\<open>send_keys(v)\<close> on every element in the order of the
  list, and does return when the driver accepts each of these calls.
\<close>

theorem write_forwards_keys:
  "(has_context b \<longrightarrow>
      set_attr b inst v drv tr =
        (Inl (ValueError ''Sorry, the set descriptor doesn't support elements with context.''),
         tr)) \<and>
   (\<not> has_context b \<longrightarrow>
      (PageElement_get b (Some inst) None drv tr = (Inl x, tr') \<longrightarrow>
         set_attr b inst v drv tr = (Inl x, tr')) \<and>
      (cls b = PageElement \<longrightarrow>
         (PageElement_get b (Some inst) None drv tr = (Inr PyNone, tr') \<longrightarrow>
            set_attr b inst v drv tr =
              (Inl (ValueError ''Can't set value, element not found''), tr')) \<and>
         (PageElement_get b (Some inst) None drv tr = (Inr (PyElement e), tr') \<longrightarrow>
            snd (set_attr b inst v drv tr) = tr' @ [SendKeys e v] \<and>
            (\<forall>r. drv tr' (SendKeys e v) = Inr r \<longrightarrow>
               fst (set_attr b inst v drv tr) = Inr PyNone))) \<and>
      (cls b = MultiPageElement \<longrightarrow>
         (PageElement_get b (Some inst) None drv tr = (Inr (PyList []), tr') \<longrightarrow>
            set_attr b inst v drv tr =
              (Inl (ValueError ''Can't set value, no elements found''), tr')) \<and>
         (PageElement_get b (Some inst) None drv tr = (Inr (PyList es), tr') \<longrightarrow> es \<noteq> [] \<longrightarrow>
            (\<forall>r. fst (set_attr b inst v drv tr) = Inr r \<longrightarrow>
               snd (set_attr b inst v drv tr) = tr' @ map (\<lambda>x. SendKeys x v) es) \<and>
            ((\<forall>i < length es. \<exists>r.
                 drv (tr' @ map (\<lambda>x. SendKeys x v) (take i es)) (SendKeys (es ! i) v) = Inr r) \<longrightarrow>
               set_attr b inst v drv tr = (Inr PyNone, tr' @ map (\<lambda>x. SendKeys x v) es)))))"
proof (intro conjI impI allI)
  assume "has_context b"
  then show "set_attr b inst v drv tr =
        (Inl (ValueError ''Sorry, the set descriptor doesn't support elements with context.''),
         tr)"
    by (rule set_attr_context)
next
  assume "\<not> has_context b" "PageElement_get b (Some inst) None drv tr = (Inl x, tr')"
  then show "set_attr b inst v drv tr = (Inl x, tr')" by (rule set_attr_raises)
next
  assume "\<not> has_context b" "cls b = PageElement"
    "PageElement_get b (Some inst) None drv tr = (Inr PyNone, tr')"
  then show "set_attr b inst v drv tr =
      (Inl (ValueError ''Can't set value, element not found''), tr')"
    by (simp add: set_attr_single)
next
  assume "\<not> has_context b" "cls b = PageElement"
    "PageElement_get b (Some inst) None drv tr = (Inr (PyElement e), tr')"
  then show "snd (set_attr b inst v drv tr) = tr' @ [SendKeys e v]"
    by (simp add: set_attr_single invoke_def split: sum.split)
next
  fix r
  assume "\<not> has_context b" "cls b = PageElement"
    "PageElement_get b (Some inst) None drv tr = (Inr (PyElement e), tr')"
    "drv tr' (SendKeys e v) = Inr r"
  then show "fst (set_attr b inst v drv tr) = Inr PyNone"
    by (simp add: set_attr_single invoke_def)
next
  assume "\<not> has_context b" "cls b = MultiPageElement"
    "PageElement_get b (Some inst) None drv tr = (Inr (PyList []), tr')"
  then show "set_attr b inst v drv tr =
      (Inl (ValueError ''Can't set value, no elements found''), tr')"
    by (simp add: set_attr_multi)
next
  fix r
  assume a: "\<not> has_context b" "cls b = MultiPageElement"
    "PageElement_get b (Some inst) None drv tr = (Inr (PyList es), tr')" "es \<noteq> []"
    and r: "fst (set_attr b inst v drv tr) = Inr r"
  from a have eq: "set_attr b inst v drv tr = send_keys_each es v drv tr'"
    by (simp add: set_attr_multi)
  with r have "fst (send_keys_each es v drv tr') = Inr r" by simp
  then have "send_keys_each es v drv tr' = (Inr PyNone, tr' @ map (\<lambda>x. SendKeys x v) es)"
    by (rule send_keys_each_returns)
  with eq show "snd (set_attr b inst v drv tr) = tr' @ map (\<lambda>x. SendKeys x v) es"
    by simp
next
  assume a: "\<not> has_context b" "cls b = MultiPageElement"
    "PageElement_get b (Some inst) None drv tr = (Inr (PyList es), tr')" "es \<noteq> []"
    and ok: "\<forall>i < length es. \<exists>r.
       drv (tr' @ map (\<lambda>x. SendKeys x v) (take i es)) (SendKeys (es ! i) v) = Inr r"
  from a have eq: "set_attr b inst v drv tr = send_keys_each es v drv tr'"
    by (simp add: set_attr_multi)
  from ok have "send_keys_each es v drv tr' = (Inr PyNone, tr' @ map (\<lambda>x. SendKeys x v) es)"
    by (rule send_keys_each_accepted)
  with eq show "set_attr b inst v drv tr = (Inr PyNone, tr' @ map (\<lambda>x. SendKeys x v) es)"
    by simp
qed

theorem write_forwards_keys_witness:
  "set_attr (binding1 PageElement True None) page1 ''abc'' (\<lambda>t c. Inr (PyElement (el 7))) [] =
     (Inl (ValueError ''Sorry, the set descriptor doesn't support elements with context.''), []) \<and>
   set_attr (binding1 PageElement False None) page1 ''abc'' (\<lambda>t c. Inl NoSuchElementException) [] =
     (Inl (ValueError ''Can't set value, element not found''),
      [FindElement (OnDriver wd1) ID ''foo'']) \<and>
   set_attr (binding1 PageElement False None) page1 ''abc''
       (\<lambda>t c. case c of FindElement _ _ _ \<Rightarrow> Inr (PyElement (el 7)) | _ \<Rightarrow> Inr PyNone) [] =
     (Inr PyNone, [FindElement (OnDriver wd1) ID ''foo'', SendKeys (el 7) ''abc'']) \<and>
   set_attr (binding1 MultiPageElement False None) page1 ''abc'' (\<lambda>t c. Inr (PyList [])) [] =
     (Inl (ValueError ''Can't set value, no elements found''),
      [FindElements (OnDriver wd1) ID ''foo'']) \<and>
   set_attr (binding1 MultiPageElement False None) page1 ''abc''
       (\<lambda>t c. case c of FindElements _ _ _ \<Rightarrow> Inr (PyList [el 2, el 3]) | _ \<Rightarrow> Inr PyNone) [] =
     (Inr PyNone,
      [FindElements (OnDriver wd1) ID ''foo'', SendKeys (el 2) ''abc'',
       SendKeys (el 3) ''abc''])"
  using
    write_forwards_keys [where b = "binding1 PageElement True None" and inst = page1
      and v = "''abc''" and drv = "\<lambda>t c. Inr (PyElement (el 7))" and tr = "[]"]
    write_forwards_keys [where b = "binding1 PageElement False None" and inst = page1
      and v = "''abc''" and drv = "\<lambda>t c. Inl NoSuchElementException" and tr = "[]"
      and tr' = "[FindElement (OnDriver wd1) ID ''foo'']"]
    write_forwards_keys [where b = "binding1 PageElement False None" and inst = page1
      and v = "''abc''"
      and drv = "\<lambda>t c. case c of FindElement _ _ _ \<Rightarrow> Inr (PyElement (el 7)) | _ \<Rightarrow> Inr PyNone"
      and tr = "[]" and tr' = "[FindElement (OnDriver wd1) ID ''foo'']" and e = "el 7"]
    write_forwards_keys [where b = "binding1 MultiPageElement False None" and inst = page1
      and v = "''abc''" and drv = "\<lambda>t c. Inr (PyList [])" and tr = "[]"
      and tr' = "[FindElements (OnDriver wd1) ID ''foo'']"]
    write_forwards_keys [where b = "binding1 MultiPageElement False None" and inst = page1
      and v = "''abc''"
      and drv = "\<lambda>t c. case c of FindElements _ _ _ \<Rightarrow> Inr (PyList [el 2, el 3]) | _ \<Rightarrow> Inr PyNone"
      and tr = "[]" and tr' = "[FindElements (OnDriver wd1) ID ''foo'']"
      and es = "[el 2, el 3]"]
  by (simp add: PageElement_get_def find_def PageElement_find_def MultiPageElement_find_def
      invoke_def prod_eq_iff)

section \<open>The iframe scope\<close>

lemma IframeElement_enter_trace:
  "snd (IframeElement_enter mgr drv tr) = tr @ [SwitchToFrame (driver mgr) (iframe mgr)]"
  by (simp add: IframeElement_enter_def invoke_def split: sum.split)

lemma IframeElement_exit_trace:
  "snd (IframeElement_exit mgr exc drv tr) = tr @ [SwitchToDefaultContent (driver mgr)]"
  by (simp add: IframeElement_exit_def invoke_def split: sum.split)

lemma IframeElement_exit_value:
  "fst (IframeElement_exit mgr exc drv tr) = Inr r \<Longrightarrow> r = PyNone"
  by (simp add: IframeElement_exit_def invoke_def split: sum.splits)

lemma with_iframe_entered:
  assumes "drv tr (SwitchToFrame (driver mgr) (iframe mgr)) = Inr r1"
    and "block (tr @ [SwitchToFrame (driver mgr) (iframe mgr)]) = (res, tr2)"
  shows "snd (with_iframe mgr block drv tr) = tr2 @ [SwitchToDefaultContent (driver mgr)]"
    and "drv tr2 (SwitchToDefaultContent (driver mgr)) = Inr r2 \<Longrightarrow>
           fst (with_iframe mgr block drv tr) = res"
  using assms
  by (simp_all add: with_iframe_def IframeElement_enter_def IframeElement_exit_def invoke_def
      split: sum.split)

text \<open>
  Claim C7. \<^verbatim>\<open>IframeElement(None)\<close> raises \<^verbatim>\<open>ValueError\<close>, and with an element the
  manager keeps the element and its parent driver. \<^verbatim>\<open>__enter__\<close> adds exactly one call
  to the trace, the switch into the frame; \<^verbatim>\<open>__exit__\<close> adds exactly one call, the
  switch to the default content, whatever exception it is handed, and when it returns its
  value is not true, so the \<^verbatim>\<open>with\<close> statement swallows nothing. For a whole
  \<^verbatim>\<open>with\<close> statement whose switch into the frame succeeded: after the block's own
  calls comes exactly one switch to the default content, whether the block returned or
  raised, and when that call returns, the outcome of the statement is the outcome of the
  block, its exception included.
\<close>

theorem iframe_scope:
  "IframeElement_init None = Inl (ValueError ''Please specify an iframe'') \<and>
   IframeElement_init (Some e) = Inr \<lparr>iframe = e, driver = parent e\<rparr> \<and>
   snd (IframeElement_enter mgr drv tr) = tr @ [SwitchToFrame (driver mgr) (iframe mgr)] \<and>
   snd (IframeElement_exit mgr exc drv tr) = tr @ [SwitchToDefaultContent (driver mgr)] \<and>
   (\<forall>r. fst (IframeElement_exit mgr exc drv tr) = Inr r \<longrightarrow> \<not> truthy r) \<and>
   (\<forall>r1 res tr2.
      drv tr (SwitchToFrame (driver mgr) (iframe mgr)) = Inr r1 \<longrightarrow>
      block (tr @ [SwitchToFrame (driver mgr) (iframe mgr)]) = (res, tr2) \<longrightarrow>
        snd (with_iframe mgr block drv tr) = tr2 @ [SwitchToDefaultContent (driver mgr)] \<and>
        (\<forall>r2. drv tr2 (SwitchToDefaultContent (driver mgr)) = Inr r2 \<longrightarrow>
           fst (with_iframe mgr block drv tr) = res))"
proof (intro conjI allI impI)
  show "IframeElement_init None = Inl (ValueError ''Please specify an iframe'')"
    by (simp add: IframeElement_init_def)
  show "IframeElement_init (Some e) = Inr \<lparr>iframe = e, driver = parent e\<rparr>"
    by (simp add: IframeElement_init_def)
  show "snd (IframeElement_enter mgr drv tr) = tr @ [SwitchToFrame (driver mgr) (iframe mgr)]"
    by (rule IframeElement_enter_trace)
  show "snd (IframeElement_exit mgr exc drv tr) = tr @ [SwitchToDefaultContent (driver mgr)]"
    by (rule IframeElement_exit_trace)
next
  fix r assume "fst (IframeElement_exit mgr exc drv tr) = Inr r"
  then have "r = PyNone" by (rule IframeElement_exit_value)
  then show "\<not> truthy r" by simp
next
  fix r1 res tr2
  assume "drv tr (SwitchToFrame (driver mgr) (iframe mgr)) = Inr r1"
    "block (tr @ [SwitchToFrame (driver mgr) (iframe mgr)]) = (res, tr2)"
  then show "snd (with_iframe mgr block drv tr) = tr2 @ [SwitchToDefaultContent (driver mgr)]"
    by (rule with_iframe_entered(1))
next
  fix r1 res tr2 r2
  assume "drv tr (SwitchToFrame (driver mgr) (iframe mgr)) = Inr r1"
    "block (tr @ [SwitchToFrame (driver mgr) (iframe mgr)]) = (res, tr2)"
    "drv tr2 (SwitchToDefaultContent (driver mgr)) = Inr r2"
  then show "fst (with_iframe mgr block drv tr) = res"
    by (rule with_iframe_entered(2))
qed

theorem iframe_scope_witness:
  "with_iframe \<lparr>iframe = el 3, driver = wd1\<rparr>
       (\<lambda>t. (Inl (ValueError ''boom''), t @ [SendKeys (el 5) ''x'']))
       (\<lambda>t c. Inr PyNone) [] =
     (Inl (ValueError ''boom''),
      [SwitchToFrame wd1 (el 3), SendKeys (el 5) ''x'', SwitchToDefaultContent wd1]) \<and>
   with_iframe \<lparr>iframe = el 3, driver = wd1\<rparr>
       (\<lambda>t. (Inr (PyBool True), t)) (\<lambda>t c. Inr PyNone) [] =
     (Inr (PyBool True), [SwitchToFrame wd1 (el 3), SwitchToDefaultContent wd1])"
  using
    iframe_scope [where mgr = "\<lparr>iframe = el 3, driver = wd1\<rparr>"
      and block = "\<lambda>t. (Inl (ValueError ''boom''), t @ [SendKeys (el 5) ''x''])"
      and drv = "\<lambda>t c. Inr PyNone" and tr = "[]"]
    iframe_scope [where mgr = "\<lparr>iframe = el 3, driver = wd1\<rparr>"
      and block = "\<lambda>t. (Inr (PyBool True), t)"
      and drv = "\<lambda>t c. Inr PyNone" and tr = "[]"]
  by (simp add: prod_eq_iff)

section \<open>Navigation\<close>

lemma PageObject_get_trace:
  "snd (PageObject_get self uri drv tr) =
     tr @ [Get (w self) ((case root_uri self of None \<Rightarrow> '''' | Some s \<Rightarrow> s) @ uri)]"
  by (simp add: PageObject_get_def invoke_def truthy_str_def Let_def
      split: option.splits sum.splits prod.splits)

text \<open>
  Claim C8. \<^verbatim>\<open>get(uri)\<close> on any page object makes exactly one call, the driver's
  \<^verbatim>\<open>get\<close>, with the base URI (the empty string when it is \<^verbatim>\<open>None\<close>) followed by
  \<open>uri\<close>, whatever the two strings are. A page object built with the explicit base
  \<^verbatim>\<open>"http://x/"\<close> requests \<^verbatim>\<open>"http://x/foo"\<close> for the path \<^verbatim>\<open>"foo"\<close>; one built with no
  explicit base on a driver with no \<^verbatim>\<open>root_uri\<close> requests \<^verbatim>\<open>"foo"\<close>.
\<close>

theorem navigation_concatenates:
  "snd (PageObject_get self uri drv tr) =
     tr @ [Get (w self) ((case root_uri self of None \<Rightarrow> '''' | Some s \<Rightarrow> s) @ uri)] \<and>
   snd (PageObject_get (PageObject_init wd (Some ''http://x/'')) ''foo'' drv tr) =
     tr @ [Get wd ''http://x/foo''] \<and>
   (ambient_root_uri wd = None \<longrightarrow>
      snd (PageObject_get (PageObject_init wd None) ''foo'' drv tr) = tr @ [Get wd ''foo''])"
  by (simp add: PageObject_get_trace) (simp add: PageObject_init_def truthy_str_def)

theorem navigation_concatenates_witness:
  "ambient_root_uri wd1 = None \<and>
   snd (PageObject_get \<lparr>w = wd1, root_uri = Some ''http://y/''\<rparr> ''a?b=c''
          (\<lambda>t c. Inr PyNone) []) =
     [Get wd1 ''http://y/a?b=c''] \<and>
   snd (PageObject_get (PageObject_init wd1 (Some ''http://x/'')) ''foo''
          (\<lambda>t c. Inr PyNone) []) =
     [Get wd1 ''http://x/foo''] \<and>
   snd (PageObject_get (PageObject_init wd1 None) ''foo'' (\<lambda>t c. Inr PyNone) []) =
     [Get wd1 ''foo'']"
  using navigation_concatenates [where self = "\<lparr>w = wd1, root_uri = Some ''http://y/''\<rparr>"
      and uri = "''a?b=c''" and drv = "\<lambda>t c. Inr PyNone" and tr = "[]" and wd = wd1]
  by simp

text \<open>
  Claim C9. A page object built with the explicit base URI \<^verbatim>\<open>""\<close> on a driver whose
  \<^verbatim>\<open>root_uri\<close> attribute is the string \<open>R\<close> has base URI \<open>R\<close>, and \<^verbatim>\<open>get(p)\<close> on it
  requests \<open>R\<close> followed by \<open>p\<close>. On the same driver a non-empty explicit base URI is
  kept.
\<close>

theorem empty_explicit_root_uri:
  "ambient_root_uri wd = Some R \<Longrightarrow>
     root_uri (PageObject_init wd (Some '''')) = Some R \<and>
     snd (PageObject_get (PageObject_init wd (Some '''')) p drv tr) = tr @ [Get wd (R @ p)] \<and>
     (s \<noteq> '''' \<longrightarrow> root_uri (PageObject_init wd (Some s)) = Some s)"
  by (simp add: PageObject_get_trace) (simp add: PageObject_init_def truthy_str_def)

theorem empty_explicit_root_uri_witness:
  "root_uri (PageObject_init \<lparr>session = 0, ambient_root_uri = Some ''http://r/''\<rparr> (Some ''''))
     = Some ''http://r/'' \<and>
   snd (PageObject_get
          (PageObject_init \<lparr>session = 0, ambient_root_uri = Some ''http://r/''\<rparr> (Some ''''))
          ''p'' (\<lambda>t c. Inr PyNone) []) =
     [Get \<lparr>session = 0, ambient_root_uri = Some ''http://r/''\<rparr> ''http://r/p''] \<and>
   root_uri (PageObject_init \<lparr>session = 0, ambient_root_uri = Some ''http://r/''\<rparr>
               (Some ''http://e/''))
     = Some ''http://e/''"
  using empty_explicit_root_uri [where
      wd = "\<lparr>session = 0, ambient_root_uri = Some ''http://r/''\<rparr>"
      and R = "''http://r/''" and p = "''p''" and drv = "\<lambda>t c. Inr PyNone" and tr = "[]"
      and s = "''http://e/''"]
  by simp

end
